theory Spec2Isabelle
  imports Complex_Main "HOL-Library.Word"
begin

unbundle bit_operations_syntax

section \<open>Nova relay server: a shallow embedding of \<open>main.py\<close>\<close>

text \<open>
  The Flask application of \<open>main.py\<close> has two helpers (\<open>save_uploaded_file\<close>,
  \<open>text_to_speech_file\<close>) and four POST handlers (\<open>stt\<close>, \<open>chat\<close>, \<open>tts\<close>,
  \<open>nova_pipeline\<close>).  Every handler is modelled as a function from the environment
  (configuration and the external collaborators), the request and the world (the temp
  directory on disk and the number of random tokens drawn so far) to a response and the
  new world.  A Python exception is a value \<open>Exc cls msg\<close>; a function that may raise
  returns \<open>exc + 'a\<close>, and an exception that no handler catches becomes the response
  \<open>Unhandled\<close> (Flask turns it into a generic 500 page).

  Strings are Isabelle strings, that is lists of 8-bit characters; \<open>lower\<close> and
  \<open>strip\<close> act on the ASCII letters and the ASCII white space, other characters are
  left alone.
\<close>

subsection \<open>Python values and exceptions\<close>

type_synonym path = string
type_synonym bytes = string

text \<open>The values \<open>json.loads\<close> produces (finite floats as rationals).\<close>

datatype pyval =
    PNone
  | PBool bool
  | PInt int
  | PFloat rat
  | PStr string
  | PList "pyval list"
  | PDict "(string \<times> pyval) list"

text \<open>An exception: its class name and \<open>str(e)\<close>.\<close>

datatype exc = Exc string string

fun str_exc :: "exc \<Rightarrow> string" where
  "str_exc (Exc cls msg) = msg"

text \<open>Python's truth value testing (\<open>not x\<close>, \<open>x or y\<close>).\<close>

fun truthy :: "pyval \<Rightarrow> bool" where
  "truthy PNone = False"
| "truthy (PBool b) = b"
| "truthy (PInt i) = (i \<noteq> 0)"
| "truthy (PFloat r) = (r \<noteq> 0)"
| "truthy (PStr s) = (s \<noteq> [])"
| "truthy (PList xs) = (xs \<noteq> [])"
| "truthy (PDict kvs) = (kvs \<noteq> [])"

definition py_or :: "pyval \<Rightarrow> pyval \<Rightarrow> pyval" where
  "py_or a b = (if truthy a then a else b)"

text \<open>\<open>d.get(k, default)\<close> on a dict.\<close>

definition dict_get :: "(string \<times> pyval) list \<Rightarrow> string \<Rightarrow> pyval \<Rightarrow> pyval" where
  "dict_get kvs k dflt = (case map_of kvs k of None \<Rightarrow> dflt | Some v \<Rightarrow> v)"

text \<open>
  \<open>data.get(k, default)\<close> on any value: only a dict has the method, every other value
  raises \<open>AttributeError\<close>.
\<close>

fun py_get :: "pyval \<Rightarrow> string \<Rightarrow> pyval \<Rightarrow> exc + pyval" where
  "py_get (PDict kvs) k dflt = Inr (dict_get kvs k dflt)"
| "py_get v k dflt = Inl (Exc ''AttributeError'' ''object has no attribute get'')"

text \<open>\<open>v[key]\<close> with a string key, and \<open>v[0]\<close>.\<close>

fun py_getitem :: "pyval \<Rightarrow> string \<Rightarrow> exc + pyval" where
  "py_getitem (PDict kvs) k =
     (case map_of kvs k of
        None \<Rightarrow> Inl (Exc ''KeyError'' ([CHR 39] @ k @ [CHR 39]))
      | Some v \<Rightarrow> Inr v)"
| "py_getitem (PStr s) k = Inl (Exc ''TypeError'' ''string indices must be integers'')"
| "py_getitem (PList xs) k = Inl (Exc ''TypeError'' ''list indices must be integers or slices, not str'')"
| "py_getitem v k = Inl (Exc ''TypeError'' ''object is not subscriptable'')"

fun py_getitem0 :: "pyval \<Rightarrow> exc + pyval" where
  "py_getitem0 (PList []) = Inl (Exc ''IndexError'' ''list index out of range'')"
| "py_getitem0 (PList (x # xs)) = Inr x"
| "py_getitem0 (PStr []) = Inl (Exc ''IndexError'' ''string index out of range'')"
| "py_getitem0 (PStr (c # cs)) = Inr (PStr [c])"
| "py_getitem0 (PDict kvs) = Inl (Exc ''KeyError'' ''0'')"
| "py_getitem0 v = Inl (Exc ''TypeError'' ''object is not subscriptable'')"

subsection \<open>String methods\<close>

definition lower_char :: "char \<Rightarrow> char" where
  "lower_char c =
     (if (65::nat) \<le> of_char c \<and> of_char c \<le> (90::nat)
      then char_of (of_char c + (32::nat)) else c)"

definition lower :: "string \<Rightarrow> string" where
  "lower s = map lower_char s"

text \<open>The ASCII characters for which \<open>str.isspace\<close> holds.\<close>

definition is_space :: "char \<Rightarrow> bool" where
  "is_space c = ((of_char c :: nat) \<in> {9, 10, 11, 12, 13, 28, 29, 30, 31, 32})"

definition strip :: "string \<Rightarrow> string" where
  "strip s = rev (dropWhile is_space (rev (dropWhile is_space s)))"

text \<open>\<open>v.strip()\<close>: a method of \<open>str\<close> only.\<close>

fun py_strip :: "pyval \<Rightarrow> exc + string" where
  "py_strip (PStr s) = Inr (strip s)"
| "py_strip v = Inl (Exc ''AttributeError'' ''object has no attribute strip'')"

text \<open>\<open>s.rsplit(sep, 1)\<close> for a one-character separator.\<close>

definition rsplit1 :: "char \<Rightarrow> string \<Rightarrow> string list" where
  "rsplit1 sep s =
     (if sep \<in> set s
      then [rev (tl (dropWhile (\<lambda>c. c \<noteq> sep) (rev s))), rev (takeWhile (\<lambda>c. c \<noteq> sep) (rev s))]
      else [s])"

text \<open>
  Line 27: \<open>ext = filename.rsplit(".", 1)[-1].lower() if "." in filename else ""\<close>.
  The list \<open>rsplit1\<close> returns is never empty, so \<open>[-1]\<close> is \<open>last\<close>.
\<close>

definition file_ext :: "string \<Rightarrow> string" where
  "file_ext fname = (if CHR ''.'' \<in> set fname then lower (last (rsplit1 CHR ''.'' fname)) else '''')"

text \<open>\<open>posixpath.join(a, b)\<close>.\<close>

definition os_path_join :: "path \<Rightarrow> path \<Rightarrow> path" where
  "os_path_join a b =
     (if b \<noteq> [] \<and> hd b = CHR ''/'' then b
      else if a = [] \<or> last a = CHR ''/'' then a @ b
      else a @ ''/'' @ b)"

subsection \<open>Random tokens\<close>

text \<open>
  \<open>uuid.uuid4()\<close> is a 128-bit value; \<open>.hex\<close> prints it as 32 lower-case hexadecimal
  digits, most significant first.
\<close>

type_synonym uuid = "128 word"

definition hex_digit :: "nat \<Rightarrow> char" where
  "hex_digit n = ''0123456789abcdef'' ! (n mod 16)"

fun hex_of :: "nat \<Rightarrow> uuid \<Rightarrow> string" where
  "hex_of 0 u = []"
| "hex_of (Suc n) u = hex_of n (drop_bit 4 u) @ [hex_digit (unat (u AND 15))]"

definition uuid_hex :: "uuid \<Rightarrow> string" where
  "uuid_hex u = hex_of 32 u"

subsection \<open>Requests, responses, environment and world\<close>

text \<open>A part of \<open>request.files\<close>: the client's file name and the bytes.\<close>

record file_storage =
  filename :: string
  content :: bytes

text \<open>
  A request: \<open>request.files\<close>, and what \<open>request.get_json(force=True, silent=True)\<close>
  returns, which is \<open>None\<close> when the body is missing or is not JSON.
\<close>

record request =
  files :: "(string \<times> file_storage) list"
  json_body :: "pyval option"

text \<open>
  What a handler returns: \<open>jsonify(dict), status\<close>; the response made from
  \<open>send_file(path, mimetype)\<close> with its added headers; or an exception that escapes.
\<close>

datatype response =
    Json nat "(string \<times> pyval) list"
  | FileResponse path string "(string \<times> string) list"
  | Unhandled exc

text \<open>The answer of the transcription provider: a dict, or an object with attributes.\<close>

datatype api_resp =
    Mapping "(string \<times> pyval) list"
  | Object "(string \<times> pyval) list"

record chat_call =
  model :: string
  messages :: "(string \<times> pyval) list"
  max_tokens :: nat

text \<open>
  The environment: \<open>openai.api_key\<close> (set once from \<open>OPENAI_API_KEY\<close>),
  \<open>UPLOAD_DIR\<close>, the random source, the three providers as functions that return or
  raise, and the paths on which the operating system refuses to write or to delete.
\<close>

record env =
  api_key :: "string option"
  upload_dir :: path
  uuid_at :: "nat \<Rightarrow> uuid"
  transcribe :: "string \<Rightarrow> bytes \<Rightarrow> exc + api_resp"
  chat_create :: "chat_call \<Rightarrow> exc + pyval"
  gtts :: "pyval \<Rightarrow> pyval \<Rightarrow> exc + bytes"
  write_fails :: "path \<Rightarrow> bool"
  remove_fails :: "path \<Rightarrow> bool"

record world =
  disk :: "path \<Rightarrow> bytes option"
  draws :: nat

definition key_missing :: "env \<Rightarrow> bool" where
  "key_missing e = (case api_key e of None \<Rightarrow> True | Some k \<Rightarrow> k = [])"

definition uuid4 :: "env \<Rightarrow> world \<Rightarrow> uuid \<times> world" where
  "uuid4 e w = (uuid_at e (draws w), w\<lparr>draws := Suc (draws w)\<rparr>)"

text \<open>Writing a whole file (\<open>f.save(path)\<close>, \<open>tts.save(path)\<close>), \<open>os.remove\<close>,
  \<open>open(path, "rb").read()\<close>.\<close>

definition fs_write :: "env \<Rightarrow> path \<Rightarrow> bytes \<Rightarrow> world \<Rightarrow> exc + world" where
  "fs_write e p c w =
     (if write_fails e p then Inl (Exc ''OSError'' (''cannot write '' @ p))
      else Inr (w\<lparr>disk := (disk w)(p \<mapsto> c)\<rparr>))"

definition os_remove :: "env \<Rightarrow> path \<Rightarrow> world \<Rightarrow> exc + world" where
  "os_remove e p w =
     (if disk w p = None then Inl (Exc ''FileNotFoundError'' (''No such file or directory: '' @ p))
      else if remove_fails e p then Inl (Exc ''PermissionError'' (''Permission denied: '' @ p))
      else Inr (w\<lparr>disk := (disk w)(p := None)\<rparr>))"

definition fs_read :: "world \<Rightarrow> path \<Rightarrow> exc + bytes" where
  "fs_read w p =
     (case disk w p of
        None \<Rightarrow> Inl (Exc ''FileNotFoundError'' (''No such file or directory: '' @ p))
      | Some c \<Rightarrow> Inr c)"

subsection \<open>Helpers\<close>

text \<open>\<open>allowed_exts and ext not in allowed_exts\<close>: \<open>None\<close> and the empty list are falsy.\<close>

definition ext_rejected :: "string list option \<Rightarrow> string \<Rightarrow> bool" where
  "ext_rejected allowed_exts ext =
     (case allowed_exts of None \<Rightarrow> False | Some xs \<Rightarrow> xs \<noteq> [] \<and> ext \<notin> set xs)"

definition save_uploaded_file ::
  "env \<Rightarrow> request \<Rightarrow> string \<Rightarrow> string list option \<Rightarrow> world \<Rightarrow> (exc + path) \<times> world" where
  "save_uploaded_file e req field_name allowed_exts w =
     (case map_of (files req) field_name of
        None \<Rightarrow> (Inl (Exc ''ValueError'' ''No file field in request''), w)
      | Some f \<Rightarrow>
          if filename f = '''' then (Inl (Exc ''ValueError'' ''Empty filename''), w)
          else if ext_rejected allowed_exts (file_ext (filename f))
          then (Inl (Exc ''ValueError'' (''Extension not allowed: '' @ file_ext (filename f))), w)
          else
            (case uuid4 e w of
               (u, w1) \<Rightarrow>
                 (case fs_write e (os_path_join (upload_dir e) (uuid_hex u @ ''_'' @ filename f))
                         (content f) w1 of
                    Inl ex \<Rightarrow> (Inl ex, w1)
                  | Inr w2 \<Rightarrow>
                      (Inr (os_path_join (upload_dir e) (uuid_hex u @ ''_'' @ filename f)), w2))))"

text \<open>
  \<open>text_to_speech_file\<close>: gTTS is a black box that answers with the MP3 bytes or
  raises; \<open>tts.save\<close> stores the bytes under \<open>out_path\<close>.
\<close>

definition text_to_speech_file ::
  "env \<Rightarrow> pyval \<Rightarrow> pyval \<Rightarrow> string \<Rightarrow> world \<Rightarrow> (exc + path \<times> string) \<times> world" where
  "text_to_speech_file e text lang prefix w =
     (case uuid4 e w of
        (u, w1) \<Rightarrow>
          (case gtts e text lang of
             Inl ex \<Rightarrow> (Inl ex, w1)
           | Inr audio \<Rightarrow>
               (case fs_write e (os_path_join (upload_dir e) (prefix @ ''_'' @ uuid_hex u @ ''.mp3''))
                       audio w1 of
                  Inl ex \<Rightarrow> (Inl ex, w1)
                | Inr w2 \<Rightarrow>
                    (Inr (os_path_join (upload_dir e) (prefix @ ''_'' @ uuid_hex u @ ''.mp3''),
                          prefix @ ''_'' @ uuid_hex u @ ''.mp3''), w2))))"

text \<open>\<open>make_response(send_file(path, mimetype="audio/mpeg"))\<close> and the added header.\<close>

definition send_mp3 :: "world \<Rightarrow> path \<Rightarrow> string \<Rightarrow> exc + response" where
  "send_mp3 w p suggested_name =
     (case disk w p of
        None \<Rightarrow> Inl (Exc ''FileNotFoundError'' (''No such file or directory: '' @ p))
      | Some c \<Rightarrow> Inr (FileResponse p ''audio/mpeg'' [(''X-Reply-Filename'', suggested_name)]))"

text \<open>Sequencing of steps that may raise: the first exception ends the block.\<close>

definition and_then :: "exc + 'a \<Rightarrow> ('a \<Rightarrow> exc + 'b) \<Rightarrow> exc + 'b" where
  "and_then r f = (case r of Inl ex \<Rightarrow> Inl ex | Inr x \<Rightarrow> f x)"

subsection \<open>\<open>/stt\<close>\<close>

text \<open>
  Lines 70 to 72:
  \<^verbatim>\<open>text = resp.get("text") if isinstance(resp, dict) else getattr(resp, 'text', None)\<close>
  \<^verbatim>\<open>if not text: text = resp.get("transcript") if isinstance(resp, dict) else ""\<close>
\<close>

definition stt_extract :: "api_resp \<Rightarrow> pyval" where
  "stt_extract resp =
     (let text = (case resp of Mapping d \<Rightarrow> dict_get d ''text'' PNone
                             | Object a \<Rightarrow> dict_get a ''text'' PNone)
      in if \<not> truthy text
         then (case resp of Mapping d \<Rightarrow> dict_get d ''transcript'' PNone | Object a \<Rightarrow> PStr '''')
         else text)"

text \<open>The \<open>try\<close> block of \<open>stt\<close> (lines 63 to 72).\<close>

definition stt_try :: "env \<Rightarrow> path \<Rightarrow> world \<Rightarrow> exc + pyval" where
  "stt_try e audio_path w =
     and_then (fs_read w audio_path) (\<lambda>af.
     and_then (transcribe e ''whisper-1'' af) (\<lambda>resp.
     Inr (stt_extract resp)))"

definition stt :: "env \<Rightarrow> request \<Rightarrow> world \<Rightarrow> response \<times> world" where
  "stt e req w =
     (case save_uploaded_file e req ''file'' None w of
        (Inl ex, w1) \<Rightarrow>
          (Json 400 [(''error'', PStr ''upload_failed''), (''detail'', PStr (str_exc ex))], w1)
      | (Inr audio_path, w1) \<Rightarrow>
          if key_missing e then
            (case os_remove e audio_path w1 of
               Inl ex \<Rightarrow> (Unhandled ex, w1)
             | Inr w2 \<Rightarrow>
                 (Json 500 [(''error'', PStr ''no_api_key''),
                            (''detail'', PStr ''OPENAI_API_KEY not configured on server.'')], w2))
          else
            (case stt_try e audio_path w1 of
               Inl ex \<Rightarrow>
                 (case os_remove e audio_path w1 of
                    Inl ex' \<Rightarrow> (Unhandled ex', w1)
                  | Inr w2 \<Rightarrow>
                      (Json 500 [(''error'', PStr ''transcription_failed''),
                                 (''detail'', PStr (str_exc ex))], w2))
             | Inr text \<Rightarrow>
                 (case os_remove e audio_path w1 of
                    Inl ex' \<Rightarrow> (Unhandled ex', w1)
                  | Inr w2 \<Rightarrow> (Json 200 [(''text'', text)], w2))))"

subsection \<open>\<open>/chat\<close>\<close>

text \<open>\<open>request.get_json(force=True, silent=True) or {}\<close>.\<close>

definition json_or_empty :: "request \<Rightarrow> pyval" where
  "json_or_empty req = (case json_body req of None \<Rightarrow> PDict [] | Some v \<Rightarrow> py_or v (PDict []))"

text \<open>\<open>response["choices"][0]["message"]["content"].strip()\<close>.\<close>

definition chat_reply :: "pyval \<Rightarrow> exc + string" where
  "chat_reply chat_resp =
     and_then (py_getitem chat_resp ''choices'') (\<lambda>choices.
     and_then (py_getitem0 choices) (\<lambda>choice.
     and_then (py_getitem choice ''message'') (\<lambda>message.
     and_then (py_getitem message ''content'') py_strip)))"

definition completion_call :: "pyval \<Rightarrow> pyval \<Rightarrow> chat_call" where
  "completion_call system_prompt user_text =
     \<lparr>model = ''gpt-3.5-turbo'',
      messages = [(''system'', system_prompt), (''user'', user_text)],
      max_tokens = 512\<rparr>"

text \<open>The \<open>try\<close> block of \<open>chat\<close> (lines 96 to 105).\<close>

definition chat_try :: "env \<Rightarrow> pyval \<Rightarrow> pyval \<Rightarrow> exc + string" where
  "chat_try e system_prompt user_text =
     and_then (chat_create e (completion_call system_prompt user_text)) chat_reply"

definition chat :: "env \<Rightarrow> request \<Rightarrow> world \<Rightarrow> response \<times> world" where
  "chat e req w =
     (case py_get (json_or_empty req) ''text'' (PStr '''') of
        Inl ex \<Rightarrow> (Unhandled ex, w)
      | Inr user_text \<Rightarrow>
          (case py_get (json_or_empty req) ''system''
                  (PStr ''You are Nova, a calm and friendly AI assistant.'') of
             Inl ex \<Rightarrow> (Unhandled ex, w)
           | Inr system_prompt \<Rightarrow>
               if user_text = PStr '''' then (Json 400 [(''error'', PStr ''no_text'')], w)
               else if key_missing e then
                 (Json 500 [(''error'', PStr ''no_api_key''),
                            (''detail'', PStr ''OPENAI_API_KEY not configured.'')], w)
               else
                 (case chat_try e system_prompt user_text of
                    Inl ex \<Rightarrow>
                      (Json 500 [(''error'', PStr ''chat_failed''),
                                 (''detail'', PStr (str_exc ex))], w)
                  | Inr reply \<Rightarrow> (Json 200 [(''reply'', PStr reply)], w))))"

subsection \<open>\<open>/tts\<close>\<close>

definition tts :: "env \<Rightarrow> request \<Rightarrow> world \<Rightarrow> response \<times> world" where
  "tts e req w =
     (case py_get (json_or_empty req) ''text'' (PStr '''') of
        Inl ex \<Rightarrow> (Unhandled ex, w)
      | Inr text \<Rightarrow>
          (case py_get (json_or_empty req) ''lang'' (PStr ''en'') of
             Inl ex \<Rightarrow> (Unhandled ex, w)
           | Inr lang \<Rightarrow>
               if \<not> truthy text then (Json 400 [(''error'', PStr ''no_text'')], w)
               else
                 (case text_to_speech_file e text lang ''g'' w of
                    (Inl ex, w1) \<Rightarrow>
                      (Json 500 [(''error'', PStr ''tts_failed''),
                                 (''detail'', PStr (str_exc ex))], w1)
                  | (Inr (mp3_path, suggested_name), w1) \<Rightarrow>
                      (case send_mp3 w1 mp3_path suggested_name of
                         Inl ex \<Rightarrow>
                           (Json 500 [(''error'', PStr ''tts_failed''),
                                      (''detail'', PStr (str_exc ex))], w1)
                       | Inr resp \<Rightarrow> (resp, w1)))))"

subsection \<open>\<open>/nova\<close>\<close>

text \<open>
  Line 156: \<open>stt_resp.get("text") or stt_resp.get("transcript") or ""\<close>; an object
  that is not a dict has no \<open>get\<close>.
\<close>

definition nova_extract :: "api_resp \<Rightarrow> exc + pyval" where
  "nova_extract stt_resp =
     (case stt_resp of
        Mapping d \<Rightarrow>
          Inr (py_or (py_or (dict_get d ''text'' PNone) (dict_get d ''transcript'' PNone))
                 (PStr ''''))
      | Object a \<Rightarrow> Inl (Exc ''AttributeError'' ''object has no attribute get''))"

text \<open>The \<open>try\<close> block of \<open>nova_pipeline\<close> (lines 152 to 173).\<close>

definition nova_chat :: "env \<Rightarrow> path \<Rightarrow> world \<Rightarrow> exc + string" where
  "nova_chat e audio_path w =
     and_then (fs_read w audio_path) (\<lambda>af.
     and_then (transcribe e ''whisper-1'' af) (\<lambda>stt_resp.
     and_then (nova_extract stt_resp) (\<lambda>user_text.
     and_then (chat_create e (completion_call
                 (PStr ''You are Nova, a smart, calm, and friendly AI assistant.'') user_text))
       chat_reply)))"

definition nova_try :: "env \<Rightarrow> path \<Rightarrow> world \<Rightarrow> (exc + response) \<times> world" where
  "nova_try e audio_path w =
     (case nova_chat e audio_path w of
        Inl ex \<Rightarrow> (Inl ex, w)
      | Inr reply_text \<Rightarrow>
          (case text_to_speech_file e (PStr reply_text) (PStr ''en'') ''reply'' w of
             (Inl ex, w1) \<Rightarrow> (Inl ex, w1)
           | (Inr (mp3_path, suggested_name), w1) \<Rightarrow> (send_mp3 w1 mp3_path suggested_name, w1)))"

text \<open>
  The \<open>finally\<close> block (lines 176 to 181): delete the upload if it is still there, and
  ignore whatever the deletion raises.
\<close>

definition cleanup :: "env \<Rightarrow> path \<Rightarrow> world \<Rightarrow> world" where
  "cleanup e audio_path w =
     (if disk w audio_path \<noteq> None
      then (case os_remove e audio_path w of Inl ex \<Rightarrow> w | Inr w' \<Rightarrow> w')
      else w)"

definition nova_pipeline :: "env \<Rightarrow> request \<Rightarrow> world \<Rightarrow> response \<times> world" where
  "nova_pipeline e req w =
     (case save_uploaded_file e req ''file'' None w of
        (Inl ex, w1) \<Rightarrow>
          (Json 400 [(''error'', PStr ''upload_failed''), (''detail'', PStr (str_exc ex))], w1)
      | (Inr audio_path, w1) \<Rightarrow>
          if key_missing e then
            (case os_remove e audio_path w1 of
               Inl ex \<Rightarrow> (Unhandled ex, w1)
             | Inr w2 \<Rightarrow>
                 (Json 500 [(''error'', PStr ''no_api_key''),
                            (''detail'', PStr ''OPENAI_API_KEY not configured.'')], w2))
          else
            (case nova_try e audio_path w1 of
               (Inl ex, w2) \<Rightarrow>
                 (Json 500 [(''error'', PStr ''pipeline_failed''),
                            (''detail'', PStr (str_exc ex))], cleanup e audio_path w2)
             | (Inr resp, w2) \<Rightarrow> (resp, cleanup e audio_path w2)))"

section \<open>Reference notions of the specification\<close>


text \<open>
  The extension as the specification words it: the substring after the last \<open>.\<close>,
  lower-cased, or the empty string when there is no \<open>.\<close>.
\<close>

fun after_last :: "char \<Rightarrow> string \<Rightarrow> string option" where
  "after_last c [] = None"
| "after_last c (x # xs) =
     (case after_last c xs of
        Some s \<Rightarrow> Some s
      | None \<Rightarrow> if x = c then Some xs else None)"

definition spec_extension :: "string \<Rightarrow> string" where
  "spec_extension fname = lower (case after_last CHR ''.'' fname of None \<Rightarrow> [] | Some s \<Rightarrow> s)"

text \<open>The error the specification calls \<open>DisallowedExtension\<close> (line 29).\<close>

definition disallowed_extension :: "string \<Rightarrow> exc" where
  "disallowed_extension ext = Exc ''ValueError'' (''Extension not allowed: '' @ ext)"

section \<open>Sample environments and requests\<close>

text \<open>
  The mock of the specification's section 8: the transcription is \<open>hello\<close>, the chat
  reply \<open>hi there\<close>, the synthesis a fixed byte sequence; nothing fails.
\<close>

definition mock_env :: env where
  "mock_env =
     \<lparr>api_key = Some ''sk-test'',
      upload_dir = ''/tmp'',
      uuid_at = (\<lambda>n. of_nat n),
      transcribe = (\<lambda>m af. Inr (Mapping [(''text'', PStr ''hello'')])),
      chat_create = (\<lambda>c. Inr (PDict [(''choices'',
         PList [PDict [(''message'', PDict [(''content'', PStr '' hi there '')])]])])),
      gtts = (\<lambda>text lang. Inr ''ID3-bytes''),
      write_fails = (\<lambda>p. False),
      remove_fails = (\<lambda>p. False)\<rparr>"

text \<open>Variations: no credential; a temp directory that refuses deletions; a provider
  that hears silence; each provider down in turn.\<close>

definition keyless_env :: env where
  "keyless_env = mock_env\<lparr>api_key := None\<rparr>"






definition wav_file :: file_storage where
  "wav_file = \<lparr>filename = ''a.wav'', content = ''RIFF''\<rparr>"

definition upload_req :: request where
  "upload_req = \<lparr>files = [(''file'', wav_file)], json_body = None\<rparr>"

definition upload_path :: path where
  "upload_path = ''/tmp/00000000000000000000000000000000_a.wav''"

definition json_req :: "pyval \<Rightarrow> request" where
  "json_req v = \<lparr>files = [], json_body = Some v\<rparr>"

definition empty_world :: world where
  "empty_world = \<lparr>disk = (\<lambda>p. None), draws = 0\<rparr>"

definition later_world :: world where
  "later_world = \<lparr>disk = (\<lambda>p. None), draws = 1\<rparr>"


text \<open>Requests and an allow-list for the extension check.\<close>

definition named_upload :: "string \<Rightarrow> request" where
  "named_upload fname =
     \<lparr>files = [(''file'', \<lparr>filename = fname, content = ''RIFF''\<rparr>)], json_body = None\<rparr>"

definition audio_exts :: "string list" where
  "audio_exts = [''wav'', ''mp3'', ''m4a'']"

text \<open>No credential and a temp directory that refuses deletions; a random source that
  repeats itself; a second upload of the same file name with other bytes.\<close>

definition keyless_locked_env :: env where
  "keyless_locked_env = mock_env\<lparr>api_key := None, remove_fails := (\<lambda>p. True)\<rparr>"



section \<open>Properties\<close>

subsection \<open>The chat handler keeps no state\<close>

text \<open>
  Claim C10.  Two identical \<open>/chat\<close> requests evaluated against the same deterministic
  provider function carry the same reply: the response of \<open>chat\<close> is the same from
  every world, so also from the world an earlier call has left behind, and a call
  leaves the world as it found it.
\<close>

theorem chat_idempotent:
  "fst (chat e req w) = fst (chat e req w') \<and> snd (chat e req w) = w \<and>
   fst (chat e req (snd (chat e req w))) = fst (chat e req w)"
  by (simp add: chat_def split: sum.splits)

subsection \<open>Facts about the helpers\<close>

lemma save_uploaded_file_Inr:
  assumes "save_uploaded_file e req fld al w = (Inr p, w1)"
  obtains f where "map_of (files req) fld = Some f" and "filename f \<noteq> []"
    and "\<not> ext_rejected al (file_ext (filename f))"
    and "p = os_path_join (upload_dir e) (uuid_hex (uuid_at e (draws w)) @ ''_'' @ filename f)"
    and "\<not> write_fails e p"
    and "w1 = w\<lparr>draws := Suc (draws w), disk := (disk w)(p \<mapsto> content f)\<rparr>"
  using assms
  by (auto simp: save_uploaded_file_def uuid4_def fs_write_def
      split: option.splits if_splits sum.splits)

lemma save_uploaded_file_disk:
  assumes "save_uploaded_file e req fld al w = (Inr p, w1)"
  shows "disk w1 p \<noteq> None"
  using assms by (rule save_uploaded_file_Inr) simp



subsection \<open>Deletion of the uploaded file\<close>




subsection \<open>Extraction of the transcript\<close>





subsection \<open>Failures inside the pipeline\<close>




subsection \<open>Names of the temp files\<close>

lemma hex_digit_member: "hex_digit n \<in> set ''0123456789abcdef''"
proof -
  have "n mod 16 < length ''0123456789abcdef''"
    by simp
  then show ?thesis
    unfolding hex_digit_def by (rule nth_mem)
qed

lemma hex_of_digits: "set (hex_of n u) \<subseteq> set ''0123456789abcdef''"
proof (induction n arbitrary: u)
  case 0
  then show ?case by simp
next
  case (Suc n)
  from Suc.IH [of "drop_bit 4 u"] hex_digit_member [of "unat (u AND 15)"]
  show ?case by simp
qed

lemma length_hex_of: "length (hex_of n u) = n"
  by (induction n arbitrary: u) simp_all

lemma length_uuid_hex: "length (uuid_hex u) = 32"
  by (simp add: uuid_hex_def length_hex_of)

lemma uuid_hex_first: "uuid_hex u \<noteq> [] \<and> hd (uuid_hex u) \<in> set ''0123456789abcdef''"
proof -
  have nonempty: "uuid_hex u \<noteq> []"
    using length_uuid_hex [of u] by auto
  then have "hd (uuid_hex u) \<in> set (uuid_hex u)"
    by simp
  with hex_of_digits [of 32 u] nonempty show ?thesis
    unfolding uuid_hex_def by blast
qed

lemma os_path_join_relative:
  assumes "b \<noteq> []" and "hd b \<noteq> CHR ''/''"
  shows "os_path_join a b = (if a = [] \<or> last a = CHR ''/'' then a @ b else a @ ''/'' @ b)"
  using assms by (simp add: os_path_join_def)

lemma os_path_join_inject:
  assumes "b \<noteq> []" and "hd b \<noteq> CHR ''/''" and "c \<noteq> []" and "hd c \<noteq> CHR ''/''"
  shows "os_path_join a b = os_path_join a c \<longleftrightarrow> b = c"
  using assms by (simp add: os_path_join_relative)

lemma upload_name_relative:
  "uuid_hex u @ ''_'' @ fname \<noteq> [] \<and> hd (uuid_hex u @ ''_'' @ fname) \<noteq> CHR ''/''"
  using uuid_hex_first [of u] by auto

lemma mp3_differs_from_upload:
  assumes "prefix \<noteq> []" and "hd prefix \<notin> set ''0123456789abcdef/''"
  shows "os_path_join d (prefix @ ''_'' @ uuid_hex u' @ ''.mp3'') \<noteq>
         os_path_join d (uuid_hex u @ ''_'' @ fname)"
proof -
  have mp3: "prefix @ ''_'' @ uuid_hex u' @ ''.mp3'' \<noteq> [] \<and>
      hd (prefix @ ''_'' @ uuid_hex u' @ ''.mp3'') = hd prefix"
    using assms(1) by simp
  have up: "hd (uuid_hex u @ ''_'' @ fname) = hd (uuid_hex u)"
    using uuid_hex_first [of u] by simp
  have "hd prefix \<noteq> hd (uuid_hex u)"
    using uuid_hex_first [of u] assms(2) by auto
  with mp3 up have names: "prefix @ ''_'' @ uuid_hex u' @ ''.mp3'' \<noteq> uuid_hex u @ ''_'' @ fname"
    by metis
  have "hd (prefix @ ''_'' @ uuid_hex u' @ ''.mp3'') \<noteq> CHR ''/''"
    using mp3 assms(2) by auto
  with mp3 upload_name_relative [of u fname] names show ?thesis
    by (simp add: os_path_join_inject)
qed

lemma text_to_speech_file_Inr:
  assumes "text_to_speech_file e t l pre w = (Inr (mp3, name), w')"
  obtains audio where "gtts e t l = Inr audio"
    and "name = pre @ ''_'' @ uuid_hex (uuid_at e (draws w)) @ ''.mp3''"
    and "mp3 = os_path_join (upload_dir e) name"
    and "w' = w\<lparr>draws := Suc (draws w), disk := (disk w)(mp3 \<mapsto> audio)\<rparr>"
  using assms
  by (auto simp: text_to_speech_file_def uuid4_def fs_write_def split: sum.splits if_splits)

lemma nova_try_Inr:
  assumes "nova_try e p w = (Inr resp, w')"
  obtains reply audio name mp3
  where "resp = FileResponse mp3 ''audio/mpeg'' [(''X-Reply-Filename'', name)]"
    and "name = ''reply_'' @ uuid_hex (uuid_at e (draws w)) @ ''.mp3''"
    and "mp3 = os_path_join (upload_dir e) name"
    and "gtts e (PStr reply) (PStr ''en'') = Inr audio"
    and "disk w' = (disk w)(mp3 \<mapsto> audio)"
proof -
  from assms obtain reply mp3 name where
    tts: "text_to_speech_file e (PStr reply) (PStr ''en'') ''reply'' w = (Inr (mp3, name), w')"
    and sent: "send_mp3 w' mp3 name = Inr resp"
    by (auto simp: nova_try_def split: sum.splits prod.splits)
  from tts obtain audio where "gtts e (PStr reply) (PStr ''en'') = Inr audio"
    and "name = ''reply'' @ ''_'' @ uuid_hex (uuid_at e (draws w)) @ ''.mp3''"
    and "mp3 = os_path_join (upload_dir e) name"
    and "w' = w\<lparr>draws := Suc (draws w), disk := (disk w)(mp3 \<mapsto> audio)\<rparr>"
    by (rule text_to_speech_file_Inr)
  moreover from sent have "resp = FileResponse mp3 ''audio/mpeg'' [(''X-Reply-Filename'', name)]"
    by (auto simp: send_mp3_def split: option.splits)
  ultimately show ?thesis
    using that [of mp3 name reply audio] by simp
qed

lemma cleanup_other: "q \<noteq> p \<Longrightarrow> disk (cleanup e p w) q = disk w q"
  by (simp add: cleanup_def os_remove_def)

subsection \<open>The synthesized file stays\<close>

text \<open>
  Claim C8.  When \<open>/tts\<close> or \<open>/nova\<close> answers with the MP3 file, that file is on disk
  in the world the handler leaves behind, holding the bytes the synthesis provider
  returned.  \<open>/tts\<close> deletes nothing: every file that was on disk before is still there.
  \<open>/nova\<close> deletes nothing but the uploaded audio file: every other file that was on
  disk before is still there.
\<close>

theorem synthesized_file_stays:
  "(fst (tts e req w) = FileResponse mp3 mt hs \<longrightarrow>
      (\<exists>text lang audio. gtts e text lang = Inr audio \<and>
         disk (snd (tts e req w)) mp3 = Some audio) \<and>
      (\<forall>q. disk w q \<noteq> None \<longrightarrow> disk (snd (tts e req w)) q \<noteq> None)) \<and>
   (fst (nova_pipeline e req w) = FileResponse mp3 mt hs \<longrightarrow>
      (\<exists>text lang audio. gtts e text lang = Inr audio \<and>
         disk (snd (nova_pipeline e req w)) mp3 = Some audio) \<and>
      (\<forall>q. disk w q \<noteq> None \<and> fst (save_uploaded_file e req ''file'' None w) \<noteq> Inr q \<longrightarrow>
         disk (snd (nova_pipeline e req w)) q \<noteq> None))"
proof -
  have tts_part:
    "(\<exists>text lang audio. gtts e text lang = Inr audio \<and> disk (snd (tts e req w)) mp3 = Some audio) \<and>
     (\<forall>q. disk w q \<noteq> None \<longrightarrow> disk (snd (tts e req w)) q \<noteq> None)"
    if ok: "fst (tts e req w) = FileResponse mp3 mt hs"
  proof -
    from ok obtain t lang path name w1 where
      made: "text_to_speech_file e t lang ''g'' w = (Inr (path, name), w1)"
      and sent: "send_mp3 w1 path name = Inr (FileResponse mp3 mt hs)"
      and final: "snd (tts e req w) = w1"
      by (auto simp: tts_def split: sum.splits prod.splits if_splits)
    from sent have same: "path = mp3"
      by (auto simp: send_mp3_def split: option.splits)
    from made obtain audio where "gtts e t lang = Inr audio"
      and "w1 = w\<lparr>draws := Suc (draws w), disk := (disk w)(path \<mapsto> audio)\<rparr>"
      by (rule text_to_speech_file_Inr)
    with same final show ?thesis by auto
  qed
  have nova_part:
    "(\<exists>text lang audio. gtts e text lang = Inr audio \<and>
        disk (snd (nova_pipeline e req w)) mp3 = Some audio) \<and>
     (\<forall>q. disk w q \<noteq> None \<and> fst (save_uploaded_file e req ''file'' None w) \<noteq> Inr q \<longrightarrow>
        disk (snd (nova_pipeline e req w)) q \<noteq> None)"
    if ok: "fst (nova_pipeline e req w) = FileResponse mp3 mt hs"
  proof -
    from ok obtain p w1 w2 where
      saved: "save_uploaded_file e req ''file'' None w = (Inr p, w1)"
      and tried: "nova_try e p w1 = (Inr (FileResponse mp3 mt hs), w2)"
      and final: "snd (nova_pipeline e req w) = cleanup e p w2"
      by (auto simp: nova_pipeline_def split: sum.splits prod.splits if_splits)
    from saved obtain f :: file_storage where
      p: "p = os_path_join (upload_dir e) (uuid_hex (uuid_at e (draws w)) @ ''_'' @ filename f)"
      and w1: "w1 = w\<lparr>draws := Suc (draws w), disk := (disk w)(p \<mapsto> content f)\<rparr>"
      by (rule save_uploaded_file_Inr)
    from tried obtain reply audio name where
      name: "name = ''reply_'' @ uuid_hex (uuid_at e (draws w1)) @ ''.mp3''"
      and mp3: "mp3 = os_path_join (upload_dir e) name"
      and audio: "gtts e (PStr reply) (PStr ''en'') = Inr audio"
      and w2: "disk w2 = (disk w1)(mp3 \<mapsto> audio)"
      by (elim nova_try_Inr) simp
    have "os_path_join (upload_dir e) (''reply'' @ ''_'' @ uuid_hex (uuid_at e (draws w1)) @ ''.mp3'') \<noteq>
        os_path_join (upload_dir e) (uuid_hex (uuid_at e (draws w)) @ ''_'' @ filename f)"
      by (rule mp3_differs_from_upload) simp_all
    with p mp3 name have apart: "mp3 \<noteq> p"
      by simp
    have kept: "disk (cleanup e p w2) mp3 = Some audio"
      using apart w2 by (simp add: cleanup_other)
    have others: "disk (cleanup e p w2) q \<noteq> None"
      if "disk w q \<noteq> None" and "q \<noteq> p" for q
      using that w1 w2 by (simp add: cleanup_other)
    from saved have "fst (save_uploaded_file e req ''file'' None w) = Inr p"
      by simp
    with kept others audio final show ?thesis
      by auto
  qed
  from tts_part nova_part show ?thesis by blast
qed

theorem synthesized_file_stays_witness:
  "fst (tts mock_env (json_req (PDict [(''text'', PStr ''hi'')])) empty_world) =
     FileResponse ''/tmp/g_00000000000000000000000000000000.mp3'' ''audio/mpeg''
       [(''X-Reply-Filename'', ''g_00000000000000000000000000000000.mp3'')] \<and>
   (\<exists>text lang audio. gtts mock_env text lang = Inr audio \<and>
      disk (snd (tts mock_env (json_req (PDict [(''text'', PStr ''hi'')])) empty_world))
        ''/tmp/g_00000000000000000000000000000000.mp3'' = Some audio) \<and>
   fst (nova_pipeline mock_env upload_req empty_world) =
     FileResponse ''/tmp/reply_00000000000000000000000000000001.mp3'' ''audio/mpeg''
       [(''X-Reply-Filename'', ''reply_00000000000000000000000000000001.mp3'')] \<and>
   (\<exists>text lang audio. gtts mock_env text lang = Inr audio \<and>
      disk (snd (nova_pipeline mock_env upload_req empty_world))
        ''/tmp/reply_00000000000000000000000000000001.mp3'' = Some audio)"
proof -
  have one: "fst (tts mock_env (json_req (PDict [(''text'', PStr ''hi'')])) empty_world) =
     FileResponse ''/tmp/g_00000000000000000000000000000000.mp3'' ''audio/mpeg''
       [(''X-Reply-Filename'', ''g_00000000000000000000000000000000.mp3'')]"
    by code_simp
  have two: "fst (nova_pipeline mock_env upload_req empty_world) =
     FileResponse ''/tmp/reply_00000000000000000000000000000001.mp3'' ''audio/mpeg''
       [(''X-Reply-Filename'', ''reply_00000000000000000000000000000001.mp3'')]"
    by code_simp
  from one two
    synthesized_file_stays [of mock_env "json_req (PDict [(''text'', PStr ''hi'')])" empty_world
      "''/tmp/g_00000000000000000000000000000000.mp3''" "''audio/mpeg''"
      "[(''X-Reply-Filename'', ''g_00000000000000000000000000000000.mp3'')]"]
    synthesized_file_stays [of mock_env upload_req empty_world
      "''/tmp/reply_00000000000000000000000000000001.mp3''" "''audio/mpeg''"
      "[(''X-Reply-Filename'', ''reply_00000000000000000000000000000001.mp3'')]"]
  show ?thesis by blast
qed

subsection \<open>No credential\<close>

lemma text_to_speech_file_ignores_key:
  "text_to_speech_file (e\<lparr>api_key := k\<rparr>) t l pre w = text_to_speech_file e t l pre w"
  by (simp add: text_to_speech_file_def uuid4_def fs_write_def cong: sum.case_cong)

lemma tts_ignores_key: "tts (e\<lparr>api_key := k\<rparr>) req w = tts e req w"
  unfolding tts_def text_to_speech_file_ignores_key ..

text \<open>
  What holds when no credential is configured (\<open>openai.api_key\<close> is \<open>None\<close> or
  empty) and the saved upload can be deleted again: \<open>/stt\<close> and \<open>/nova\<close> answer HTTP
  500 with error \<open>no_api_key\<close>, and so does \<open>/chat\<close> for a JSON object whose \<open>text\<close>
  is not the empty string; \<open>/tts\<close> does not look at the credential at all and answers
  with the MP3 file whenever the synthesis provider returns audio and the file can be
  written.
\<close>

lemma no_api_key_when_deletable:
  assumes "key_missing e"
  shows
    "(fst (save_uploaded_file e req ''file'' None w) = Inr p \<and> \<not> remove_fails e p \<longrightarrow>
        fst (stt e req w) =
          Json 500 [(''error'', PStr ''no_api_key''),
                    (''detail'', PStr ''OPENAI_API_KEY not configured on server.'')] \<and>
        fst (nova_pipeline e req w) =
          Json 500 [(''error'', PStr ''no_api_key''),
                    (''detail'', PStr ''OPENAI_API_KEY not configured.'')]) \<and>
     (json_or_empty req = PDict kvs \<and> dict_get kvs ''text'' (PStr '''') \<noteq> PStr '''' \<longrightarrow>
        fst (chat e req w) =
          Json 500 [(''error'', PStr ''no_api_key''),
                    (''detail'', PStr ''OPENAI_API_KEY not configured.'')]) \<and>
     (json_or_empty req = PDict kvs \<and> truthy (dict_get kvs ''text'' (PStr '''')) \<and>
      gtts e (dict_get kvs ''text'' (PStr '''')) (dict_get kvs ''lang'' (PStr ''en'')) = Inr audio \<and>
      \<not> write_fails e (os_path_join (upload_dir e)
           (''g_'' @ uuid_hex (uuid_at e (draws w)) @ ''.mp3'')) \<longrightarrow>
        fst (tts e req w) =
          FileResponse
            (os_path_join (upload_dir e) (''g_'' @ uuid_hex (uuid_at e (draws w)) @ ''.mp3''))
            ''audio/mpeg''
            [(''X-Reply-Filename'', ''g_'' @ uuid_hex (uuid_at e (draws w)) @ ''.mp3'')]) \<and>
     tts (e\<lparr>api_key := k\<rparr>) req w = tts e req w"
proof -
  have uploads:
    "fst (stt e req w) =
       Json 500 [(''error'', PStr ''no_api_key''),
                 (''detail'', PStr ''OPENAI_API_KEY not configured on server.'')] \<and>
     fst (nova_pipeline e req w) =
       Json 500 [(''error'', PStr ''no_api_key''),
                 (''detail'', PStr ''OPENAI_API_KEY not configured.'')]"
    if p: "fst (save_uploaded_file e req ''file'' None w) = Inr p" and "\<not> remove_fails e p"
  proof -
    obtain w1 where saved: "save_uploaded_file e req ''file'' None w = (Inr p, w1)"
      using p by (cases "save_uploaded_file e req ''file'' None w") simp
    have "disk w1 p \<noteq> None"
      using saved by (rule save_uploaded_file_disk)
    with saved assms that(2) show ?thesis
      by (simp add: stt_def nova_pipeline_def os_remove_def)
  qed
  have chat_part:
    "fst (chat e req w) =
       Json 500 [(''error'', PStr ''no_api_key''),
                 (''detail'', PStr ''OPENAI_API_KEY not configured.'')]"
    if "json_or_empty req = PDict kvs" and "dict_get kvs ''text'' (PStr '''') \<noteq> PStr ''''"
    using that assms by (simp add: chat_def)
  have tts_part:
    "fst (tts e req w) =
       FileResponse
         (os_path_join (upload_dir e) (''g_'' @ uuid_hex (uuid_at e (draws w)) @ ''.mp3''))
         ''audio/mpeg''
         [(''X-Reply-Filename'', ''g_'' @ uuid_hex (uuid_at e (draws w)) @ ''.mp3'')]"
    if "json_or_empty req = PDict kvs" and "truthy (dict_get kvs ''text'' (PStr ''''))"
      and "gtts e (dict_get kvs ''text'' (PStr '''')) (dict_get kvs ''lang'' (PStr ''en'')) = Inr audio"
      and "\<not> write_fails e (os_path_join (upload_dir e)
           (''g_'' @ uuid_hex (uuid_at e (draws w)) @ ''.mp3''))"
    using that
    by (simp add: tts_def text_to_speech_file_def uuid4_def fs_write_def send_mp3_def)
  from uploads chat_part tts_part tts_ignores_key show ?thesis
    by blast
qed

text \<open>
  Claim C3 asks for HTTP 500 with error \<open>no_api_key\<close> on every \<open>/stt\<close> and \<open>/nova\<close>
  request that passed its input validation while no credential is configured.  The code
  does not deliver that when \<open>os.remove\<close> raises: lines 60 and 149 delete the saved upload
  outside any \<open>try\<close>, where the \<open>finally\<close> block of \<open>nova_pipeline\<close> guards the
  same call.  At this input no credential is configured, the upload is saved and the temp
  directory refuses deletions: both handlers let the \<open>PermissionError\<close> escape instead
  of answering \<open>no_api_key\<close>, and the upload stays on disk.
\<close>

theorem no_api_key_lost_when_deletion_fails:
  "key_missing keyless_locked_env \<and>
   fst (save_uploaded_file keyless_locked_env upload_req ''file'' None empty_world) =
     Inr upload_path \<and>
   fst (stt keyless_locked_env upload_req empty_world) =
     Unhandled (Exc ''PermissionError''
       ''Permission denied: /tmp/00000000000000000000000000000000_a.wav'') \<and>
   fst (nova_pipeline keyless_locked_env upload_req empty_world) =
     Unhandled (Exc ''PermissionError''
       ''Permission denied: /tmp/00000000000000000000000000000000_a.wav'') \<and>
   disk (snd (stt keyless_locked_env upload_req empty_world)) upload_path = Some ''RIFF'' \<and>
   disk (snd (nova_pipeline keyless_locked_env upload_req empty_world)) upload_path = Some ''RIFF''"
  by code_simp

subsection \<open>Validation of the JSON body\<close>

lemma json_or_empty_None: "json_body req = None \<Longrightarrow> json_or_empty req = PDict []"
  by (simp add: json_or_empty_def)

lemma json_or_empty_falsy:
  "json_body req = Some v \<Longrightarrow> \<not> truthy v \<Longrightarrow> json_or_empty req = PDict []"
  by (simp add: json_or_empty_def py_or_def)

lemma json_or_empty_object: "json_body req = Some (PDict kvs) \<Longrightarrow> json_or_empty req = PDict kvs"
  by (cases kvs) (simp_all add: json_or_empty_def py_or_def)

lemma chat_no_text:
  assumes "json_or_empty req = PDict kvs" and "dict_get kvs ''text'' (PStr '''') = PStr ''''"
  shows "chat e req w = (Json 400 [(''error'', PStr ''no_text'')], w)"
  using assms by (simp add: chat_def)

text \<open>
  A \<open>/chat\<close> request whose body is missing or is not JSON (\<open>get_json\<close> returns
  \<open>None\<close>, no parse error is raised), or is a falsy JSON value, or is a JSON object
  whose \<open>text\<close> field is absent or is the empty string, gets HTTP 400 with error
  \<open>no_text\<close> and nothing else happens, whatever the credential \<open>api_key\<close> is set to.
\<close>

lemma chat_rejects_without_text:
  "(json_body req = None \<longrightarrow>
      chat (e\<lparr>api_key := k\<rparr>) req w = (Json 400 [(''error'', PStr ''no_text'')], w)) \<and>
   (json_body req = Some v \<and> \<not> truthy v \<longrightarrow>
      chat (e\<lparr>api_key := k\<rparr>) req w = (Json 400 [(''error'', PStr ''no_text'')], w)) \<and>
   (json_body req = Some (PDict kvs) \<and> map_of kvs ''text'' = None \<longrightarrow>
      chat (e\<lparr>api_key := k\<rparr>) req w = (Json 400 [(''error'', PStr ''no_text'')], w)) \<and>
   (json_body req = Some (PDict kvs) \<and> map_of kvs ''text'' = Some (PStr '''') \<longrightarrow>
      chat (e\<lparr>api_key := k\<rparr>) req w = (Json 400 [(''error'', PStr ''no_text'')], w))"
proof -
  have missing: "chat (e\<lparr>api_key := k\<rparr>) req w = (Json 400 [(''error'', PStr ''no_text'')], w)"
    if "json_body req = None"
    using json_or_empty_None [OF that] by (rule chat_no_text) (simp add: dict_get_def)
  have falsy: "chat (e\<lparr>api_key := k\<rparr>) req w = (Json 400 [(''error'', PStr ''no_text'')], w)"
    if "json_body req = Some v" and "\<not> truthy v"
    using json_or_empty_falsy [OF that] by (rule chat_no_text) (simp add: dict_get_def)
  have absent: "chat (e\<lparr>api_key := k\<rparr>) req w = (Json 400 [(''error'', PStr ''no_text'')], w)"
    if "json_body req = Some (PDict kvs)" and "map_of kvs ''text'' = None"
    using json_or_empty_object [OF that(1)] by (rule chat_no_text) (simp add: dict_get_def that(2))
  have empty: "chat (e\<lparr>api_key := k\<rparr>) req w = (Json 400 [(''error'', PStr ''no_text'')], w)"
    if "json_body req = Some (PDict kvs)" and "map_of kvs ''text'' = Some (PStr '''')"
    using json_or_empty_object [OF that(1)] by (rule chat_no_text) (simp add: dict_get_def that(2))
  from missing falsy absent empty show ?thesis
    by blast
qed

text \<open>
  Claim C5 asks for HTTP 400 with error \<open>no_text\<close> on every \<open>/chat\<close> request whose
  \<open>text\<close> field is absent, whether or not the credential is configured.  The code
  turns a missing, invalid or falsy body into \<open>{}\<close> (line 86) but misses the bodies
  that are JSON and truthy without being objects: \<open>[1]\<close> and \<open>"hello"\<close> have no
  \<open>text\<close> field, line 87 calls \<open>get\<close> on them, and the \<open>AttributeError\<close> escapes to
  the client as a server error, with and without a credential.
\<close>

theorem chat_non_object_body_escapes:
  "json_body (json_req (PList [PInt 1])) = Some (PList [PInt 1]) \<and>
   fst (chat mock_env (json_req (PList [PInt 1])) empty_world) =
     Unhandled (Exc ''AttributeError'' ''object has no attribute get'') \<and>
   fst (chat keyless_env (json_req (PList [PInt 1])) empty_world) =
     Unhandled (Exc ''AttributeError'' ''object has no attribute get'') \<and>
   fst (chat mock_env (json_req (PStr ''hello'')) empty_world) =
     Unhandled (Exc ''AttributeError'' ''object has no attribute get'')"
  by code_simp

subsection \<open>Two different emptiness tests\<close>





subsection \<open>The random token determines the name\<close>









subsection \<open>Where an upload is saved\<close>




subsection \<open>The extension check\<close>

lemma takeWhile_rev_all: "c \<notin> set t \<Longrightarrow> takeWhile (\<lambda>x. x \<noteq> c) (rev t) = rev t"
  by (auto simp: takeWhile_eq_all_conv)

lemma after_last_takeWhile:
  "after_last c s =
     (if c \<in> set s then Some (rev (takeWhile (\<lambda>x. x \<noteq> c) (rev s))) else None)"
proof (induction s)
  case Nil
  then show ?case by simp
next
  case (Cons x xs)
  show ?case
  proof (cases "c \<in> set xs")
    case True
    then have "takeWhile (\<lambda>x. x \<noteq> c) (rev xs @ [x]) = takeWhile (\<lambda>x. x \<noteq> c) (rev xs)"
      by (intro takeWhile_append1 [where x = c]) simp_all
    with True Cons.IH show ?thesis by simp
  next
    case False
    then have "y \<noteq> c" if "y \<in> set (rev xs)" for y
      using that by auto
    then have "takeWhile (\<lambda>x. x \<noteq> c) (rev xs @ [x]) = rev xs @ takeWhile (\<lambda>x. x \<noteq> c) [x]"
      by (rule takeWhile_append2)
    then have "takeWhile (\<lambda>x. x \<noteq> c) (rev xs @ [x]) = (if x = c then rev xs else rev xs @ [x])"
      by simp
    with False Cons.IH show ?thesis by auto
  qed
qed

lemma file_ext_is_spec_extension: "file_ext fname = spec_extension fname"
  by (simp add: file_ext_def spec_extension_def rsplit1_def after_last_takeWhile lower_def)

lemma after_last_suffix:
  assumes "c \<notin> set t"
  shows "after_last c (pre @ c # t) = Some t"
  using assms by (simp add: after_last_takeWhile takeWhile_tail takeWhile_rev_all)

lemma after_last_absent: "c \<notin> set s \<Longrightarrow> after_last c s = None"
  by (simp add: after_last_takeWhile)

text \<open>
  Claim C7.  For an upload that reaches the extension check (the field is present and
  the file name is not empty; a missing field and an empty file name are rejected before
  it, with errors of their own) and every non-empty allow-list: \<open>save_uploaded_file\<close>
  raises the \<open>DisallowedExtension\<close> error exactly when the extension is not a member of
  the list, where the extension is the lower-cased part of the file name after its last
  \<open>.\<close>, and the empty string when the name has no \<open>.\<close>.
\<close>

theorem extension_allow_list:
  assumes "map_of (files req) fld = Some f" and "filename f \<noteq> []" and "allowed \<noteq> []"
  shows
    "(fst (save_uploaded_file e req fld (Some allowed) w) =
        Inl (disallowed_extension (spec_extension (filename f))) \<longleftrightarrow>
      spec_extension (filename f) \<notin> set allowed) \<and>
     (CHR ''.'' \<notin> set (filename f) \<longrightarrow> spec_extension (filename f) = []) \<and>
     (\<forall>stem x. filename f = stem @ ''.'' @ x \<and> CHR ''.'' \<notin> set x \<longrightarrow>
        spec_extension (filename f) = lower x)"
proof -
  have rejected: "fst (save_uploaded_file e req fld (Some allowed) w) =
      Inl (disallowed_extension (spec_extension (filename f)))"
    if "spec_extension (filename f) \<notin> set allowed"
    using assms that
    by (simp add: save_uploaded_file_def ext_rejected_def file_ext_is_spec_extension
        disallowed_extension_def)
  have accepted: "fst (save_uploaded_file e req fld (Some allowed) w) \<noteq>
      Inl (disallowed_extension (spec_extension (filename f)))"
    if "spec_extension (filename f) \<in> set allowed"
    using assms that
    by (simp add: save_uploaded_file_def ext_rejected_def file_ext_is_spec_extension
        disallowed_extension_def uuid4_def fs_write_def)
  have no_dot: "spec_extension (filename f) = []" if "CHR ''.'' \<notin> set (filename f)"
    using that by (simp add: spec_extension_def after_last_absent lower_def)
  have dotted: "spec_extension (filename f) = lower x"
    if "filename f = stem @ ''.'' @ x" and "CHR ''.'' \<notin> set x" for stem x
    using that by (simp add: spec_extension_def after_last_suffix)
  from rejected accepted no_dot dotted show ?thesis
    by blast
qed

theorem extension_allow_list_witness:
  "fst (save_uploaded_file mock_env (named_upload ''setup.EXE'') ''file'' (Some audio_exts)
         empty_world) = Inl (disallowed_extension ''exe'') \<and>
   fst (save_uploaded_file mock_env (named_upload ''noext'') ''file'' (Some audio_exts)
         empty_world) = Inl (disallowed_extension '''') \<and>
   fst (save_uploaded_file mock_env (named_upload ''Song.WAV'') ''file'' (Some audio_exts)
         empty_world) \<noteq> Inl (disallowed_extension ''wav'') \<and>
   fst (save_uploaded_file mock_env (named_upload ''a.b.Mp3'') ''file'' (Some audio_exts)
         empty_world) \<noteq> Inl (disallowed_extension ''mp3'') \<and>
   fst (save_uploaded_file mock_env (named_upload ''memo.m4A'') ''file'' (Some audio_exts)
         empty_world) \<noteq> Inl (disallowed_extension ''m4a'') \<and>
   fst (save_uploaded_file mock_env (named_upload ''Song.WAV'') ''file'' (Some audio_exts)
         empty_world) = Inr ''/tmp/00000000000000000000000000000000_Song.WAV''"
proof -
  have parts:
    "map_of (files (named_upload ''setup.EXE'')) ''file'' =
       Some \<lparr>filename = ''setup.EXE'', content = ''RIFF''\<rparr>"
    "map_of (files (named_upload ''noext'')) ''file'' =
       Some \<lparr>filename = ''noext'', content = ''RIFF''\<rparr>"
    "map_of (files (named_upload ''Song.WAV'')) ''file'' =
       Some \<lparr>filename = ''Song.WAV'', content = ''RIFF''\<rparr>"
    "map_of (files (named_upload ''a.b.Mp3'')) ''file'' =
       Some \<lparr>filename = ''a.b.Mp3'', content = ''RIFF''\<rparr>"
    "map_of (files (named_upload ''memo.m4A'')) ''file'' =
       Some \<lparr>filename = ''memo.m4A'', content = ''RIFF''\<rparr>"
    by code_simp+
  have exts:
    "spec_extension ''setup.EXE'' = ''exe''" "spec_extension ''noext'' = ''''"
    "spec_extension ''Song.WAV'' = ''wav''" "spec_extension ''a.b.Mp3'' = ''mp3''"
    "spec_extension ''memo.m4A'' = ''m4a''"
    by code_simp+
  have members: "''exe'' \<notin> set audio_exts" "'''' \<notin> set audio_exts" "''wav'' \<in> set audio_exts"
    "''mp3'' \<in> set audio_exts" "''m4a'' \<in> set audio_exts" "audio_exts \<noteq> []"
    by (simp_all add: audio_exts_def)
  have saved: "fst (save_uploaded_file mock_env (named_upload ''Song.WAV'') ''file''
      (Some audio_exts) empty_world) = Inr ''/tmp/00000000000000000000000000000000_Song.WAV''"
    by code_simp
  from extension_allow_list [OF parts(1) _ members(6), of mock_env empty_world] exts(1) members(1)
  have one: "fst (save_uploaded_file mock_env (named_upload ''setup.EXE'') ''file''
      (Some audio_exts) empty_world) = Inl (disallowed_extension ''exe'')"
    by simp
  from extension_allow_list [OF parts(2) _ members(6), of mock_env empty_world] exts(2) members(2)
  have two: "fst (save_uploaded_file mock_env (named_upload ''noext'') ''file''
      (Some audio_exts) empty_world) = Inl (disallowed_extension '''')"
    by simp
  from extension_allow_list [OF parts(3) _ members(6), of mock_env empty_world] exts(3) members(3)
  have three: "fst (save_uploaded_file mock_env (named_upload ''Song.WAV'') ''file''
      (Some audio_exts) empty_world) \<noteq> Inl (disallowed_extension ''wav'')"
    by simp
  from extension_allow_list [OF parts(4) _ members(6), of mock_env empty_world] exts(4) members(4)
  have four: "fst (save_uploaded_file mock_env (named_upload ''a.b.Mp3'') ''file''
      (Some audio_exts) empty_world) \<noteq> Inl (disallowed_extension ''mp3'')"
    by simp
  from extension_allow_list [OF parts(5) _ members(6), of mock_env empty_world] exts(5) members(5)
  have five: "fst (save_uploaded_file mock_env (named_upload ''memo.m4A'') ''file''
      (Some audio_exts) empty_world) \<noteq> Inl (disallowed_extension ''m4a'')"
    by simp
  from one two three four five saved show ?thesis
    by blast
qed

end
